theory Spec2Isabelle
  imports Main
begin

section \<open>Python strings\<close>

text \<open>
  A Python \<^verbatim>\<open>str\<close> is modelled as a \<^typ>\<open>string\<close>, one \<^typ>\<open>char\<close> per code point
  (code points below 256). The operations below are the \<^verbatim>\<open>str\<close> methods and operators that
  \<^verbatim>\<open>streamlit_app.py\<close> applies to the completion text.
\<close>

definition is_space :: "char \<Rightarrow> bool" where
  \<comment> \<open>\<^verbatim>\<open>c.isspace()\<close>: tab, line feed, vertical tab, form feed, carriage return, the four
     separators 0x1C..0x1F, space, NEL and the no-break space.\<close>
  "is_space c = (of_char c \<in> {9, 10, 11, 12, 13, 28, 29, 30, 31, 32, 133, 160 :: nat})"

definition is_linebreak :: "char \<Rightarrow> bool" where
  \<comment> \<open>The line boundaries of \<^verbatim>\<open>str.splitlines\<close>.\<close>
  "is_linebreak c = (of_char c \<in> {10, 11, 12, 13, 28, 29, 30, 133 :: nat})"

definition strip :: "string \<Rightarrow> string" where
  \<comment> \<open>\<^verbatim>\<open>s.strip()\<close>\<close>
  "strip s = rev (dropWhile is_space (rev (dropWhile is_space s)))"

definition startswith :: "string \<Rightarrow> string \<Rightarrow> bool" where
  \<comment> \<open>\<^verbatim>\<open>s.startswith(p)\<close>\<close>
  "startswith s p = (take (length p) s = p)"

fun contains :: "string \<Rightarrow> string \<Rightarrow> bool" where
  \<comment> \<open>\<^verbatim>\<open>sub in s\<close>\<close>
  "contains sub [] = (sub = [])"
| "contains sub (c # cs) = (startswith (c # cs) sub \<or> contains sub cs)"

fun split_py :: "string \<Rightarrow> string \<Rightarrow> string list" where
  \<comment> \<open>\<^verbatim>\<open>s.split(sep)\<close> for a non-empty separator: the occurrences are found from left to
     right and do not overlap.\<close>
  "split_py sep [] = [[]]"
| "split_py sep (c # cs) =
     (if sep \<noteq> [] \<and> startswith (c # cs) sep
      then [] # split_py sep (drop (length sep) (c # cs))
      else (case split_py sep cs of
              [] \<Rightarrow> [[c]]
            | piece # pieces \<Rightarrow> (c # piece) # pieces))"

fun splitlines :: "string \<Rightarrow> string list" where
  \<comment> \<open>\<^verbatim>\<open>s.splitlines()\<close>: a carriage return followed by a line feed is one boundary, and a
     boundary at the very end opens no further line.\<close>
  "splitlines [] = []"
| "splitlines (c # cs) =
     (if c = CHR 0x0D \<and> cs \<noteq> [] \<and> hd cs = CHR 0x0A then [] # splitlines (tl cs)
      else if is_linebreak c then [] # splitlines cs
      else (case splitlines cs of
              [] \<Rightarrow> [[c]]
            | line # lines \<Rightarrow> (c # line) # lines))"

fun join_py :: "string \<Rightarrow> string list \<Rightarrow> string" where
  \<comment> \<open>\<^verbatim>\<open>sep.join(xs)\<close>\<close>
  "join_py sep [] = []"
| "join_py sep [x] = x"
| "join_py sep (x # y # ys) = x @ sep @ join_py sep (y # ys)"

fun str_nat :: "nat \<Rightarrow> string" where
  \<comment> \<open>\<^verbatim>\<open>str(n)\<close> of a non-negative integer, as an f-string renders it\<close>
  "str_nat n =
     (if n < 10 then [char_of (48 + n)] else str_nat (n div 10) @ [char_of (48 + n mod 10)])"

section \<open>Values, exceptions and outcomes\<close>

text \<open>
  An exception object is carried by its message \<^verbatim>\<open>str(e)\<close>, and by the one fact about its
  class that \<^verbatim>\<open>except Exception\<close> looks at: whether it is an instance of
  \<^verbatim>\<open>Exception\<close>. \<^verbatim>\<open>SystemExit\<close>, \<^verbatim>\<open>KeyboardInterrupt\<close> and \<^verbatim>\<open>GeneratorExit\<close> derive from
  \<^verbatim>\<open>BaseException\<close> only.
\<close>

datatype py_exc =
    ExceptionInstance string
  | OtherBaseException string

text \<open>How a call ends: it returns, it raises, or it never comes back.\<close>

datatype 'a outcome =
    Returns 'a
  | Raises py_exc
  | Hangs

definition bind :: "'a outcome \<Rightarrow> ('a \<Rightarrow> 'b outcome) \<Rightarrow> 'b outcome" where
  \<comment> \<open>sequencing of two computations without effects\<close>
  "bind r f = (case r of Returns x \<Rightarrow> f x | Raises e \<Rightarrow> Raises e | Hangs \<Rightarrow> Hangs)"

definition and_then ::
  "'a outcome \<times> 's \<Rightarrow> ('a \<Rightarrow> 's \<Rightarrow> 'b outcome \<times> 's) \<Rightarrow> 'b outcome \<times> 's" where
  \<comment> \<open>statement sequencing: what follows runs only when the first part returns\<close>
  "and_then r f =
     (case r of
        (Returns x, s) \<Rightarrow> f x s
      | (Raises e, s) \<Rightarrow> (Raises e, s)
      | (Hangs, s) \<Rightarrow> (Hangs, s))"

definition except_Exception ::
  "'a outcome \<times> 's \<Rightarrow> (string \<Rightarrow> 's \<Rightarrow> 'a outcome \<times> 's) \<Rightarrow> 'a outcome \<times> 's" where
  \<comment> \<open>\<^verbatim>\<open>try: ... except Exception as e: handler\<close>; the handler gets \<^verbatim>\<open>str(e)\<close>\<close>
  "except_Exception r handler =
     (case r of
        (Raises (ExceptionInstance msg), s) \<Rightarrow> handler msg s
      | _ \<Rightarrow> r)"

definition py_index :: "'a list \<Rightarrow> int \<Rightarrow> 'a outcome" where
  \<comment> \<open>\<^verbatim>\<open>xs[i]\<close>: a negative index counts from the end\<close>
  "py_index xs i =
     (if 0 \<le> i \<and> i < int (length xs) then Returns (xs ! nat i)
      else if i < 0 \<and> - int (length xs) \<le> i then Returns (xs ! nat (int (length xs) + i))
      else Raises (ExceptionInstance ''list index out of range''))"

text \<open>
  A \<^verbatim>\<open>DataFrame\<close>: its row index and its columns. A cell is carried by its \<^verbatim>\<open>repr\<close>, a missing
  cell is \<^const>\<open>None\<close>; labels and dtypes are carried by their text.
\<close>

record column =
  label :: string
  dtype :: string
  cells :: "string option list"

record dataframe =
  index :: "string list"
  columns :: "column list"

text \<open>
  The objects a snippet can bind to \<^verbatim>\<open>result\<close>, by the classes that \<^verbatim>\<open>format_result\<close> tests.
  A figure and a float are carried by a description; \<^verbatim>\<open>bool\<close> is a subclass of \<^verbatim>\<open>int\<close>;
  \<open>PyObject\<close> is an instance of none of the classes tested (a tuple, a set, a
  \<^verbatim>\<open>Series\<close>, ...).
\<close>

datatype pyval =
    PyNone
  | PyDataFrame dataframe
  | PyFigure string
  | PyStr string
  | PyInt int
  | PyBool bool
  | PyFloat string
  | PyList "pyval list"
  | PyDict "(pyval \<times> pyval) list"
  | PyModule string
  | PyObject string

type_synonym py_dict = "string \<rightharpoonup> pyval"

definition dict_get :: "py_dict \<Rightarrow> string \<Rightarrow> pyval" where
  \<comment> \<open>\<^verbatim>\<open>d.get(key)\<close>\<close>
  "dict_get d k = (case d k of None \<Rightarrow> PyNone | Some v \<Rightarrow> v)"

section \<open>Session state, screen and collaborators\<close>

datatype sender = User | Assistant

record turn =
  sender :: sender
  msg_text :: string

text \<open>What the script puts on the page through Streamlit, in order.\<close>

datatype ui_action =
    st_error string
  | st_warning string
  | st_success string
  | st_markdown string
  | st_dataframe dataframe
  | st_download_button string string string string
  | st_plotly_chart string
  | st_write pyval

text \<open>
  \<^verbatim>\<open>st.session_state\<close> (lines 18 to 29), the display actions issued so far, and the state of
  the interpreter process outside the session (\<open>world\<close>: module attributes, the random
  generator, the completion service), which only the collaborators read and change.
\<close>

record 'w app_state =
  df :: "dataframe option"
  last_response :: "string option"
  last_query :: "string option"
  chat_history :: "turn list"
  suggestion :: string
  example_query :: "string option"
  uploaded_filename :: "string option"
  screen :: "ui_action list"
  world :: 'w

record upload =
  file_name :: string
  file_bytes :: string

text \<open>
  The library calls of the script, which are not code of the repository, are parameters:
  \<^item> \<open>read_excel\<close> is \<^verbatim>\<open>pd.read_excel\<close>;
  \<^item> \<open>generate_content\<close> is \<^verbatim>\<open>model.generate_content(prompt).text\<close>;
  \<^item> \<open>exec\<close> is the built-in \<^verbatim>\<open>exec(code, globals, locals)\<close>. It ends with the final local
    bindings, an exception or not at all; it also yields the state in which the run leaves
    the object that was bound to \<^verbatim>\<open>df\<close> (Python passes the object, not a copy, so a
    snippet can change it in place) and the process state;
  \<^item> \<open>py_str\<close> is \<^verbatim>\<open>str\<close> and \<open>to_csv\<close> is \<^verbatim>\<open>DataFrame.to_csv(index=False)\<close>.
\<close>

record 'w env =
  read_excel :: "upload \<Rightarrow> dataframe outcome"
  generate_content :: "string \<Rightarrow> 'w \<Rightarrow> string outcome \<times> 'w"
  exec :: "string \<Rightarrow> py_dict \<Rightarrow> py_dict \<Rightarrow> 'w \<Rightarrow> py_dict outcome \<times> dataframe option \<times> 'w"
  py_str :: "pyval \<Rightarrow> string outcome"
  to_csv :: "dataframe \<Rightarrow> string outcome"

definition display :: "ui_action \<Rightarrow> 'w app_state \<Rightarrow> 'w app_state" where
  "display a s = s\<lparr>screen := screen s @ [a]\<rparr>"

definition add_turn :: "sender \<Rightarrow> string \<Rightarrow> 'w app_state \<Rightarrow> 'w app_state" where
  \<comment> \<open>\<^verbatim>\<open>st.session_state.chat_history.append({"sender": who, "text": txt})\<close>\<close>
  "add_turn who txt s = s\<lparr>chat_history := chat_history s @ [\<lparr>sender = who, msg_text = txt\<rparr>]\<rparr>"

definition init_state :: "'w \<Rightarrow> ui_action list \<Rightarrow> 'w app_state" where
  \<comment> \<open>lines 18 to 29: the keys a fresh session gets\<close>
  "init_state w shown =
     \<lparr>df = None, last_response = None, last_query = None, chat_history = [],
      suggestion = [], example_query = None, uploaded_filename = None,
      screen = shown, world = w\<rparr>"

section \<open>The functions of \<^verbatim>\<open>streamlit_app.py\<close>\<close>

definition MAX_ROWS :: nat where
  "MAX_ROWS = 500"

definition MAX_COLS :: nat where
  "MAX_COLS = 20"

definition process_excel_file ::
  "'w env \<Rightarrow> upload \<Rightarrow> 'w app_state \<Rightarrow> dataframe option outcome \<times> 'w app_state" where
  \<comment> \<open>lines 32 to 44; \<^verbatim>\<open>len(df)\<close> is the number of rows\<close>
  "process_excel_file env uploaded_file s =
     except_Exception
       (and_then (read_excel env uploaded_file, s) (\<lambda>d s.
          if length (index d) > MAX_ROWS
          then (Returns None,
                display (st_error (''Too many rows. Max allowed: '' @ str_nat MAX_ROWS)) s)
          else if length (columns d) > MAX_COLS
          then (Returns None,
                display (st_error (''Too many columns. Max allowed: '' @ str_nat MAX_COLS)) s)
          else (Returns (Some d), s)))
       (\<lambda>msg s. (Returns None, display (st_error (''Error processing Excel file: '' @ msg)) s))"

definition no_attribute :: "string \<Rightarrow> string" where
  \<comment> \<open>the message of the \<^verbatim>\<open>AttributeError\<close> raised by an attribute access on \<^verbatim>\<open>None\<close>\<close>
  "no_attribute attr =
     CHR 0x27 # ''NoneType'' @ CHR 0x27 # '' object has no attribute '' @ CHR 0x27 # attr @ [CHR 0x27]"




definition local_vars :: "dataframe option \<Rightarrow> py_dict" where
  \<comment> \<open>line 86: \<^verbatim>\<open>{'df': df, 'pd': pd, 'px': px}\<close>\<close>
  "local_vars dopt =
     [''df'' \<mapsto> (case dopt of None \<Rightarrow> PyNone | Some d \<Rightarrow> PyDataFrame d),
      ''pd'' \<mapsto> PyModule ''pandas'',
      ''px'' \<mapsto> PyModule ''plotly.express'']"

definition exec_globals :: py_dict where
  \<comment> \<open>line 87: \<^verbatim>\<open>{"__builtins__": {}}\<close>\<close>
  "exec_globals = [''__builtins__'' \<mapsto> PyDict []]"

definition execute_code ::
  "'w env \<Rightarrow> string \<Rightarrow> dataframe option \<Rightarrow> 'w app_state \<Rightarrow> pyval outcome \<times> 'w app_state" where
  \<comment> \<open>lines 84 to 91. The caller passes \<^verbatim>\<open>st.session_state.df\<close> itself, so the state in which
     the run leaves that object is the stored dataset from then on.\<close>
  "execute_code env code dopt s =
     except_Exception
       (case exec env code exec_globals (local_vars dopt) (world s) of
          (ended, dopt', w) \<Rightarrow>
            and_then (ended, s\<lparr>df := dopt', world := w\<rparr>) (\<lambda>bindings s.
              (Returns (dict_get bindings ''result''), s)))
       (\<lambda>msg s. (Returns PyNone, display (st_error (''Code execution failed: '' @ msg)) s))"

definition scalar_like :: "pyval \<Rightarrow> bool" where
  \<comment> \<open>line 107: \<^verbatim>\<open>isinstance(result, (str, int, float, list, dict))\<close>\<close>
  "scalar_like v =
     (case v of
        PyStr _ \<Rightarrow> True | PyInt _ \<Rightarrow> True | PyBool _ \<Rightarrow> True | PyFloat _ \<Rightarrow> True
      | PyList _ \<Rightarrow> True | PyDict _ \<Rightarrow> True | _ \<Rightarrow> False)"

definition format_result ::
  "'w env \<Rightarrow> pyval \<Rightarrow> 'w app_state \<Rightarrow> string outcome \<times> 'w app_state" where
  \<comment> \<open>lines 94 to 113\<close>
  "format_result env result s =
     (case result of
        PyNone \<Rightarrow> (Returns ''No result to display.'', s)
      | PyDataFrame d \<Rightarrow>
          and_then (to_csv env d,
                    display (st_dataframe d) (display (st_markdown ''####Tabular Output'') s))
            (\<lambda>csv s.
               (Returns ''Here is the tabular data you requested.'',
                display (st_download_button ''Download as CSV'' csv ''result.csv'' ''text/csv'') s))
      | PyFigure fig \<Rightarrow>
          (Returns ''Here is the chart you requested.'',
           display (st_plotly_chart fig) (display (st_markdown ''####Chart Output'') s))
      | _ \<Rightarrow>
          if scalar_like result
          then (py_str env result,
                display (st_write result) (display (st_markdown ''####Text Output'') s))
          else (Returns ''Assistant returned an unknown format.'',
                display (st_warning ''Assistant returned an unknown format.'') s))"

subsection \<open>The turn pipeline in \<^verbatim>\<open>main\<close>\<close>

definition is_snippet :: "string \<Rightarrow> bool" where
  \<comment> \<open>the condition of lines 193 and 216\<close>
  "is_snippet response =
     (response \<noteq> [] \<and> contains ''result ='' response \<and> contains ''```python'' response)"

definition raw_code_of :: "string \<Rightarrow> string outcome" where
  \<comment> \<open>lines 195 and 218: \<^verbatim>\<open>response.split("```python")[-1].split("```")[0].strip()\<close>\<close>
  "raw_code_of response =
     bind (py_index (split_py ''```python'' response) (- 1)) (\<lambda>after.
     bind (py_index (split_py ''```'' after) 0) (\<lambda>body.
       Returns (strip body)))"

definition code_lines :: "string \<Rightarrow> string list" where
  \<comment> \<open>the lines kept by the generator expression of lines 196 and 219\<close>
  "code_lines raw_code =
     filter (\<lambda>line. \<not> startswith (strip line) ''import'') (splitlines raw_code)"

definition extract_code :: "string \<Rightarrow> string outcome" where
  \<comment> \<open>lines 195 and 196: the text handed to \<^verbatim>\<open>execute_code\<close>\<close>
  "extract_code response =
     bind (raw_code_of response) (\<lambda>raw_code.
       Returns (join_py ''\<newline>'' (code_lines raw_code)))"




subsection \<open>One run of the script\<close>

text \<open>
  What the user did on the page before this run of \<^verbatim>\<open>main\<close>: the file in the uploader, the
  buttons pressed (\<open>example_button\<close> is the position of the example pressed) and the form.
  Layout calls that only draw the page (titles, expanders, the transcript) are left out.
\<close>

record inputs =
  uploaded_file :: "upload option"
  remove_file :: bool
  reset_file :: bool
  example_button :: "nat option"
  send :: bool
  query :: string

text \<open>A run ends at the bottom of the script or at \<^verbatim>\<open>st.rerun()\<close>.\<close>

datatype run_end = Finished | Rerun



definition main_upload ::
  "'w env \<Rightarrow> inputs \<Rightarrow> 'w app_state \<Rightarrow> run_end outcome \<times> 'w app_state" where
  \<comment> \<open>lines 126 to 133, the branch taken while no dataset is stored\<close>
  "main_upload env inp s =
     (case uploaded_file inp of
        None \<Rightarrow> (Returns Finished, s)
      | Some f \<Rightarrow>
          and_then (process_excel_file env f s) (\<lambda>loaded s.
            case loaded of
              None \<Rightarrow> (Returns Finished, s)
            | Some d \<Rightarrow>
                (Returns Rerun,
                 display (st_success ''File uploaded successfully!'')
                   (s\<lparr>df := Some d, uploaded_filename := Some (file_name f)\<rparr>))))"



section \<open>Predicates and sample collaborators\<close>



text \<open>
  What CPython does with a handful of snippets, for use at concrete inputs: the final
  bindings or the exception raised, and the state in which the run leaves the object bound
  to \<^verbatim>\<open>df\<close>. \<^verbatim>\<open>1 / 0\<close> raises \<^verbatim>\<open>ZeroDivisionError\<close>, an instance of \<^verbatim>\<open>Exception\<close>;
  \<^verbatim>\<open>pd.compat.sys.exit(1)\<close> reaches \<^verbatim>\<open>sys.exit\<close> through the attributes of the \<^verbatim>\<open>pd\<close>
  module and raises \<^verbatim>\<open>SystemExit(1)\<close>, which is not; \<^verbatim>\<open>df.drop(df.index, inplace=True)\<close>
  deletes every row of the object itself. Any other snippet is taken to leave the bindings
  as they were.
\<close>

definition bound_df :: "py_dict \<Rightarrow> dataframe option" where
  "bound_df bindings = (case bindings ''df'' of Some (PyDataFrame d) \<Rightarrow> Some d | _ \<Rightarrow> None)"

definition sample_exec :: "string \<Rightarrow> py_dict \<Rightarrow> py_dict outcome \<times> dataframe option" where
  "sample_exec code bindings =
     (if code = ''result = 7''
      then (Returns (bindings(''result'' \<mapsto> PyInt 7)), bound_df bindings)
      else if code = ''x = 1\<newline>result = 7''
      then (Returns (bindings(''x'' \<mapsto> PyInt 1, ''result'' \<mapsto> PyInt 7)), bound_df bindings)
      else if code = ''result = 1 / 0''
      then (Raises (ExceptionInstance ''division by zero''), bound_df bindings)
      else if code = ''pd.compat.sys.exit(1)\<newline>result = 0''
      then (Raises (OtherBaseException ''1''), bound_df bindings)
      else if code = ''result = df.shape[0]\<newline>df.drop(df.index, inplace=True)''
      then (case bound_df bindings of
              Some d \<Rightarrow>
                (Returns (bindings(''result'' \<mapsto> PyInt (int (length (index d))))),
                 Some (d\<lparr>index := [], columns := map (\<lambda>c. c\<lparr>cells := []\<rparr>) (columns d)\<rparr>))
            | None \<Rightarrow> (Raises (ExceptionInstance (no_attribute ''shape'')), None))
      else (Returns bindings, bound_df bindings))"

definition sample_str :: "pyval \<Rightarrow> string outcome" where
  "sample_str v =
     (case v of
        PyStr t \<Rightarrow> Returns t
      | PyInt i \<Rightarrow> Returns (if i < 0 then CHR ''-'' # str_nat (nat (- i)) else str_nat (nat i))
      | _ \<Rightarrow> Raises (ExceptionInstance ''not in the sample''))"

text \<open>
  Collaborators that follow a script: the sheet that the uploaded file parses to and the
  completion that the service returns are given; snippets run as in \<open>sample_exec\<close>.
\<close>

definition sample_env :: "dataframe outcome \<Rightarrow> string outcome \<Rightarrow> unit env" where
  "sample_env sheet completion =
     \<lparr>read_excel = (\<lambda>_. sheet),
      generate_content = (\<lambda>_ w. (completion, w)),
      exec = (\<lambda>code _ bindings w. case sample_exec code bindings of (ended, d) \<Rightarrow> (ended, d, w)),
      py_str = sample_str,
      to_csv = (\<lambda>_. Returns [])\<rparr>"

definition sample_df :: dataframe where
  "sample_df =
     \<lparr>index = [''0'', ''1''],
      columns = [\<lparr>label = ''year'', dtype = ''int64'', cells = [Some ''2023'', Some ''2024'']\<rparr>,
                 \<lparr>label = ''sales'', dtype = ''float64'', cells = [Some ''10.5'', None]\<rparr>]\<rparr>"

definition sample_session :: "unit app_state" where
  "sample_session = (init_state () [])\<lparr>df := Some sample_df\<rparr>"

section \<open>Basic facts\<close>

subsection \<open>Sequencing and handlers\<close>

lemma and_then_simps:
  "and_then (Returns x, s) f = f x s"
  "and_then (Raises e, s) f = (Raises e, s)"
  "and_then (Hangs, s) f = (Hangs, s)"
  by (simp_all add: and_then_def)

lemma except_Exception_simps:
  "except_Exception (Returns x, s) h = (Returns x, s)"
  "except_Exception (Raises (ExceptionInstance msg), s) h = h msg s"
  "except_Exception (Raises (OtherBaseException msg), s) h = (Raises (OtherBaseException msg), s)"
  "except_Exception (Hangs, s) h = (Hangs, s)"
  by (simp_all add: except_Exception_def)

lemma bind_simps:
  "bind (Returns x) g = g x"
  "bind (Raises e) g = Raises e"
  "bind Hangs g = Hangs"
  by (simp_all add: bind_def)

lemma outcome_cases3:
  obtains (ret) x where "r = Returns x"
  | (exc) msg where "r = Raises (ExceptionInstance msg)"
  | (base) msg where "r = Raises (OtherBaseException msg)"
  | (hang) "r = Hangs"
proof (cases r)
  case (Raises e)
  then show ?thesis using that by (cases e) auto
qed (use that in auto)

lemma display_fields [simp]:
  "chat_history (display a s) = chat_history s"
  "df (display a s) = df s"
  "world (display a s) = world s"
  "screen (display a s) = screen s @ [a]"
  by (simp_all add: display_def)

lemma add_turn_fields [simp]:
  "chat_history (add_turn who txt s) = chat_history s @ [\<lparr>sender = who, msg_text = txt\<rparr>]"
  "df (add_turn who txt s) = df s"
  "world (add_turn who txt s) = world s"
  "screen (add_turn who txt s) = screen s"
  by (simp_all add: add_turn_def)

lemma str_nat_500: "str_nat 500 = ''500''"
  by code_simp

lemma str_nat_20: "str_nat 20 = ''20''"
  by code_simp

declare str_nat.simps [simp del]

subsection \<open>Splitting at the fences\<close>

lemma split_py_not_Nil: "split_py sep s \<noteq> []"
  by (induction sep s rule: split_py.induct) (auto split: list.splits)

lemma py_index_last: "xs \<noteq> [] \<Longrightarrow> py_index xs (- 1) = Returns (last xs)"
proof (cases xs)
  case Nil
  assume "xs \<noteq> []"
  with Nil show ?thesis by simp
next
  case (Cons y ys)
  have "nat (int (length (y # ys)) + - 1) = length ys" by simp
  then show ?thesis
    unfolding Cons by (simp add: py_index_def last_conv_nth)
qed

lemma py_index_first: "xs \<noteq> [] \<Longrightarrow> py_index xs 0 = Returns (hd xs)"
  by (simp add: py_index_def hd_conv_nth)

lemma raw_code_of_eq:
  "raw_code_of response =
     Returns (strip (hd (split_py ''```'' (last (split_py ''```python'' response)))))"
  by (simp add: raw_code_of_def py_index_last py_index_first split_py_not_Nil bind_simps)

lemma contains_here: "contains sub (sub @ b)"
proof (cases "sub @ b")
  case Nil
  then show ?thesis by simp
next
  case (Cons c cs)
  have "startswith (sub @ b) sub" by (simp add: startswith_def)
  then show ?thesis unfolding Cons by simp
qed

lemma contains_append: "contains sub (a @ sub @ b)"
  by (induction a) (simp_all add: contains_here)

lemma contains_iff: "contains sub s \<longleftrightarrow> (\<exists>a b. s = a @ sub @ b)"
proof
  show "contains sub s \<Longrightarrow> \<exists>a b. s = a @ sub @ b"
  proof (induction s)
    case Nil
    then show ?case by simp
  next
    case (Cons c cs)
    show ?case
    proof (cases "startswith (c # cs) sub")
      case True
      then have "c # cs = [] @ sub @ drop (length sub) (c # cs)"
        by (metis append_Nil append_take_drop_id startswith_def)
      then show ?thesis by blast
    next
      case False
      with Cons obtain a b where "cs = a @ sub @ b" by auto
      then have "c # cs = (c # a) @ sub @ b" by simp
      then show ?thesis by blast
    qed
  qed
next
  show "\<exists>a b. s = a @ sub @ b \<Longrightarrow> contains sub s"
    using contains_append by blast
qed









subsection \<open>Lines\<close>

lemma splitlines_no_break_all:
  "\<forall>line \<in> set (splitlines s). \<forall>c \<in> set line. \<not> is_linebreak c"
proof (induction s rule: splitlines.induct)
  case 1
  then show ?case by simp
next
  case (2 x xs)
  show ?case
  proof (cases "x = CHR 0x0D \<and> xs \<noteq> [] \<and> hd xs = CHR 0x0A")
    case True
    with 2 show ?thesis by simp
  next
    case crlf: False
    show ?thesis
    proof (cases "is_linebreak x")
      case True
      with 2 crlf show ?thesis by auto
    next
      case False
      with 2 crlf have IH: "\<forall>line \<in> set (splitlines xs). \<forall>c \<in> set line. \<not> is_linebreak c"
        by blast
      show ?thesis
      proof (cases "splitlines xs")
        case Nil
        with crlf False show ?thesis by auto
      next
        case (Cons l ls)
        with crlf False IH show ?thesis by auto
      qed
    qed
  qed
qed

lemma splitlines_no_break:
  "line \<in> set (splitlines s) \<Longrightarrow> c \<in> set line \<Longrightarrow> \<not> is_linebreak c"
  using splitlines_no_break_all by blast

lemma CR_is_linebreak: "is_linebreak (CHR 0x0D)"
  by (simp add: is_linebreak_def)

lemma LF_is_linebreak: "is_linebreak (CHR ''\<newline>'')"
  by (simp add: is_linebreak_def)

lemma splitlines_line_then_LF:
  "\<forall>c \<in> set l. \<not> is_linebreak c \<Longrightarrow> splitlines (l @ CHR ''\<newline>'' # rest) = l # splitlines rest"
proof (induction l)
  case Nil
  then show ?case by (simp add: LF_is_linebreak)
next
  case (Cons c cs)
  then have "\<not> is_linebreak c" "c \<noteq> CHR 0x0D"
    using CR_is_linebreak by auto
  with Cons show ?case by simp
qed

lemma splitlines_single_line:
  "\<forall>c \<in> set l. \<not> is_linebreak c \<Longrightarrow> splitlines l = (if l = [] then [] else [l])"
proof (induction l)
  case Nil
  then show ?case by simp
next
  case (Cons c cs)
  then have "\<not> is_linebreak c" "c \<noteq> CHR 0x0D"
    using CR_is_linebreak by auto
  with Cons show ?case by simp
qed

lemma splitlines_join:
  "\<forall>l \<in> set ls. \<forall>c \<in> set l. \<not> is_linebreak c \<Longrightarrow>
     set (splitlines (join_py ''\<newline>'' ls)) \<subseteq> set ls"
proof (induction "''\<newline>''" ls rule: join_py.induct)
  case 1
  then show ?case by simp
next
  case (2 x)
  then show ?case by (simp add: splitlines_single_line)
next
  case (3 x y ys)
  then have "splitlines (join_py ''\<newline>'' (x # y # ys)) = x # splitlines (join_py ''\<newline>'' (y # ys))"
    by (simp add: splitlines_line_then_LF)
  with 3 show ?case by auto
qed

lemma code_lines_no_break:
  "l \<in> set (code_lines raw) \<Longrightarrow> c \<in> set l \<Longrightarrow> \<not> is_linebreak c"
  using splitlines_no_break by (auto simp: code_lines_def)

subsection \<open>What each stage does to the transcript and to the stored dataset\<close>









lemma process_excel_file_history [simp]:
  "chat_history (snd (process_excel_file env f s)) = chat_history s"
  by (cases "read_excel env f" rule: outcome_cases3)
     (simp_all add: process_excel_file_def and_then_simps except_Exception_simps)

lemma process_excel_file_df [simp]:
  "df (snd (process_excel_file env f s)) = df s"
  by (cases "read_excel env f" rule: outcome_cases3)
     (simp_all add: process_excel_file_def and_then_simps except_Exception_simps)

lemma process_excel_file_loaded:
  "fst (process_excel_file env f s) = Returns (Some d) \<Longrightarrow>
     read_excel env f = Returns d \<and> length (index d) \<le> MAX_ROWS \<and> length (columns d) \<le> MAX_COLS"
  by (cases "read_excel env f" rule: outcome_cases3)
     (auto simp: process_excel_file_def and_then_simps except_Exception_simps split: if_splits)

lemma main_upload_history [simp]:
  "chat_history (snd (main_upload env inp s)) = chat_history s"
proof (cases "uploaded_file inp")
  case None
  then show ?thesis by (simp add: main_upload_def)
next
  case (Some f)
  obtain r s' where p: "process_excel_file env f s = (r, s')"
    by (cases "process_excel_file env f s")
  then have "chat_history s' = chat_history s"
    using process_excel_file_history[of env f s] by simp
  with Some p show ?thesis
    by (cases r) (auto simp: main_upload_def and_then_simps split: option.splits)
qed

lemma main_upload_df:
  assumes changed: "df (snd (main_upload env inp s)) \<noteq> df s"
  shows "\<exists>f d. uploaded_file inp = Some f \<and> fst (process_excel_file env f s) = Returns (Some d)
        \<and> df (snd (main_upload env inp s)) = Some d"
proof (cases "uploaded_file inp")
  case None
  with changed show ?thesis by (simp add: main_upload_def)
next
  case (Some f)
  obtain r s' where p: "process_excel_file env f s = (r, s')"
    by (cases "process_excel_file env f s")
  then have same: "df s' = df s"
    using process_excel_file_df[of env f s] by simp
  show ?thesis
  proof (cases r)
    case (Returns loaded)
    show ?thesis
    proof (cases loaded)
      case None
      with Some p Returns same changed show ?thesis
        by (simp add: main_upload_def and_then_simps)
    next
      case inner: (Some d)
      with Some p Returns show ?thesis
        by (simp add: main_upload_def and_then_simps)
    qed
  next
    case (Raises e)
    with Some p same changed show ?thesis by (simp add: main_upload_def and_then_simps)
  next
    case Hangs
    with Some p same changed show ?thesis by (simp add: main_upload_def and_then_simps)
  qed
qed


lemma execute_code_result_depends:
  "world s1 = world s2 \<Longrightarrow> fst (execute_code env code dopt s1) = fst (execute_code env code dopt s2)"
  by (cases "exec env code exec_globals (local_vars dopt) (world s2)" rule: prod_cases3;
      cases "fst (exec env code exec_globals (local_vars dopt) (world s2))" rule: outcome_cases3)
     (simp_all add: execute_code_def and_then_simps except_Exception_simps)

lemma execute_code_df:
  "exec env code exec_globals (local_vars dopt) (world s) = (ended, dopt', w) \<Longrightarrow>
     df (snd (execute_code env code dopt s)) = dopt' \<and> world (snd (execute_code env code dopt s)) = w"
  by (cases ended rule: outcome_cases3)
     (simp_all add: execute_code_def and_then_simps except_Exception_simps)

section \<open>The claims\<close>

subsection \<open>C1: what \<^verbatim>\<open>execute_code\<close> lets through\<close>

text \<open>
  Claim C1, amended. When the run of the snippet ends with its final bindings,
  \<^verbatim>\<open>execute_code\<close> returns the value bound to \<^verbatim>\<open>result\<close> (\<^verbatim>\<open>None\<close> when nothing is bound). When
  the run raises an instance of \<^verbatim>\<open>Exception\<close> (a syntax error, a missing name, a failed
  import, ...), \<^verbatim>\<open>execute_code\<close> shows "Code execution failed:" followed by the cause and
  returns \<^verbatim>\<open>None\<close>. An exception that is not an instance of \<^verbatim>\<open>Exception\<close> is not caught by
  \<^verbatim>\<open>except Exception\<close> and leaves \<^verbatim>\<open>execute_code\<close>; a run that never ends keeps
  \<^verbatim>\<open>execute_code\<close> from returning.
\<close>

theorem execute_code_outcomes:
  assumes "exec env code exec_globals (local_vars dopt) (world s) = (ended, dopt', w)"
  shows "(\<forall>bindings. ended = Returns bindings \<longrightarrow>
            execute_code env code dopt s =
              (Returns (dict_get bindings ''result''), s\<lparr>df := dopt', world := w\<rparr>))
       \<and> (\<forall>msg. ended = Raises (ExceptionInstance msg) \<longrightarrow>
            execute_code env code dopt s =
              (Returns PyNone,
               display (st_error (''Code execution failed: '' @ msg)) (s\<lparr>df := dopt', world := w\<rparr>)))
       \<and> (\<forall>msg. ended = Raises (OtherBaseException msg) \<longrightarrow>
            fst (execute_code env code dopt s) = Raises (OtherBaseException msg))
       \<and> (ended = Hangs \<longrightarrow> fst (execute_code env code dopt s) = Hangs)"
  using assms
  by (simp add: execute_code_def and_then_simps except_Exception_simps)

text \<open>
  C1 at two snippets: \<^verbatim>\<open>result = 7\<close> gives 7, and \<^verbatim>\<open>result = 1 / 0\<close> gives \<^verbatim>\<open>None\<close> after the
  error message.
\<close>

theorem execute_code_outcomes_witness:
  "fst (execute_code (sample_env Hangs Hangs) ''result = 7'' (Some sample_df) sample_session)
     = Returns (PyInt 7)
   \<and> execute_code (sample_env Hangs Hangs) ''result = 1 / 0'' (Some sample_df) sample_session
     = (Returns PyNone,
        display (st_error ''Code execution failed: division by zero'') sample_session)"
proof -
  have run1: "exec (sample_env Hangs Hangs) ''result = 7'' exec_globals
                (local_vars (Some sample_df)) (world sample_session)
              = (Returns ((local_vars (Some sample_df))(''result'' \<mapsto> PyInt 7)), Some sample_df, ())"
    by (simp add: sample_env_def sample_exec_def bound_df_def local_vars_def)
  have run2: "exec (sample_env Hangs Hangs) ''result = 1 / 0'' exec_globals
                (local_vars (Some sample_df)) (world sample_session)
              = (Raises (ExceptionInstance ''division by zero''), Some sample_df, ())"
    by (simp add: sample_env_def sample_exec_def bound_df_def local_vars_def)
  have same: "sample_session\<lparr>df := Some sample_df, world := ()\<rparr> = sample_session"
    by (simp add: sample_session_def)
  from execute_code_outcomes[OF run1] execute_code_outcomes[OF run2] same
  show ?thesis
    by (simp add: dict_get_def)
qed

text \<open>
  C1 as stated fails: the snippet below raises \<^verbatim>\<open>SystemExit\<close>, and the exception passes
  the boundary of \<^verbatim>\<open>execute_code\<close>.
\<close>

theorem execute_code_SystemExit_counterexample:
  "fst (execute_code (sample_env Hangs Hangs) ''pd.compat.sys.exit(1)\<newline>result = 0''
          (Some sample_df) sample_session)
     = Raises (OtherBaseException ''1'')"
  by code_simp

subsection \<open>C2: the evaluation context\<close>



subsection \<open>C3: import lines\<close>

text \<open>
  Claim C3, amended. Extraction always yields a code text, and no line of that text, once
  surrounding whitespace is removed, starts with the word \<^verbatim>\<open>import\<close>.
\<close>

theorem no_import_line_left:
  "\<exists>code. extract_code response = Returns code
      \<and> (\<forall>line \<in> set (splitlines code). \<not> startswith (strip line) ''import'')"
proof -
  obtain raw where raw: "raw_code_of response = Returns raw"
    by (simp add: raw_code_of_eq)
  then have code: "extract_code response = Returns (join_py ''\<newline>'' (code_lines raw))"
    by (simp add: extract_code_def bind_simps)
  have "set (splitlines (join_py ''\<newline>'' (code_lines raw))) \<subseteq> set (code_lines raw)"
    using code_lines_no_break by (intro splitlines_join) blast
  moreover have "\<forall>line \<in> set (code_lines raw). \<not> startswith (strip line) ''import''"
    by (simp add: code_lines_def)
  ultimately show ?thesis
    using code by blast
qed

text \<open>
  C3 at a completion whose block opens with \<^verbatim>\<open>import pandas as pd\<close>: the line is gone and
  the line that is left does not start with \<^verbatim>\<open>import\<close>.
\<close>

theorem no_import_line_left_witness:
  "extract_code ''```python\<newline>import pandas as pd\<newline>result = df.head()\<newline>```''
     = Returns ''result = df.head()''
   \<and> ''result = df.head()'' \<in> set (splitlines ''result = df.head()'')
   \<and> \<not> startswith (strip ''result = df.head()'') ''import''"
proof -
  have ev: "extract_code ''```python\<newline>import pandas as pd\<newline>result = df.head()\<newline>```''
     = Returns ''result = df.head()''"
    by code_simp
  have mem: "''result = df.head()'' \<in> set (splitlines ''result = df.head()'')"
    by code_simp
  from no_import_line_left[of "''```python\<newline>import pandas as pd\<newline>result = df.head()\<newline>```''"]
    ev mem
  show ?thesis by auto
qed

text \<open>
  C3 as stated fails: the test of line 196 is on the prefix \<^verbatim>\<open>import\<close>, so a line of the
  form \<^verbatim>\<open>from ... import ...\<close> stays in the code of a completion classified as a snippet.
\<close>

theorem from_import_kept_counterexample:
  "is_snippet ''```python\<newline>from os import path\<newline>result = 1\<newline>```''
   \<and> extract_code ''```python\<newline>from os import path\<newline>result = 1\<newline>```''
       = Returns ''from os import path\<newline>result = 1''"
  by code_simp

subsection \<open>C4: which fenced block is extracted\<close>




subsection \<open>C5: results of unknown shape\<close>

text \<open>
  Claim C5, amended. For every result that is not \<^verbatim>\<open>None\<close> and is neither a table, a chart
  nor scalar-like, \<^verbatim>\<open>format_result\<close> shows the warning and returns the fixed text
  "Assistant returned an unknown format.". For \<^verbatim>\<open>None\<close> (no \<^verbatim>\<open>result\<close> bound, or the run
  failed) it shows nothing and returns "No result to display.".
\<close>

theorem format_result_unknown:
  "(result \<noteq> PyNone \<and> (\<forall>d. result \<noteq> PyDataFrame d) \<and> (\<forall>fig. result \<noteq> PyFigure fig)
      \<and> \<not> scalar_like result
    \<longrightarrow> format_result env result s =
          (Returns ''Assistant returned an unknown format.'',
           display (st_warning ''Assistant returned an unknown format.'') s))
   \<and> format_result env PyNone s = (Returns ''No result to display.'', s)"
  by (cases result) (simp_all add: format_result_def scalar_like_def)

text \<open>
  C5 at a tuple, and at \<^verbatim>\<open>None\<close>.
\<close>

theorem format_result_unknown_witness:
  "format_result (sample_env Hangs Hangs) (PyObject ''tuple'') sample_session =
     (Returns ''Assistant returned an unknown format.'',
      display (st_warning ''Assistant returned an unknown format.'') sample_session)
   \<and> format_result (sample_env Hangs Hangs) PyNone sample_session
       = (Returns ''No result to display.'', sample_session)"
  using format_result_unknown[of "PyObject ''tuple''" "sample_env Hangs Hangs" sample_session]
  by (simp add: scalar_like_def)

text \<open>
  C5 as stated fails for the absent result: line 95 returns before any warning is shown,
  with a text of its own.
\<close>

theorem format_result_absent_counterexample:
  "fst (format_result (sample_env Hangs Hangs) PyNone sample_session) = Returns ''No result to display.''
   \<and> screen (snd (format_result (sample_env Hangs Hangs) PyNone sample_session)) = []"
  by code_simp

subsection \<open>C6: a failed execution in the transcript\<close>




subsection \<open>C7: running a snippet twice\<close>

text \<open>
  Claim C7, amended. The dataset that \<^verbatim>\<open>execute_code\<close> leaves in the store is the dataset
  object as the snippet left it: the executor adds no change of its own, and makes no copy
  either. When a run leaves the dataset object and the process state as it found them, the
  stored dataset is unchanged and a second run of the same snippet gives the same result.
\<close>

theorem rerun_on_untouched_dataset:
  "(exec env code exec_globals (local_vars (df s)) (world s) = (ended, df s, world s) \<longrightarrow>
      df (snd (execute_code env code (df s) s)) = df s
      \<and> fst (execute_code env code (df (snd (execute_code env code (df s) s)))
                (snd (execute_code env code (df s) s)))
          = fst (execute_code env code (df s) s))
   \<and> (exec env code exec_globals (local_vars (df s)) (world s) = (ended, dopt', w) \<longrightarrow>
        df (snd (execute_code env code (df s) s)) = dopt')"
proof (intro conjI impI)
  assume run: "exec env code exec_globals (local_vars (df s)) (world s) = (ended, df s, world s)"
  from execute_code_df[OF run]
  have same: "df (snd (execute_code env code (df s) s)) = df s"
    "world (snd (execute_code env code (df s) s)) = world s"
    by simp_all
  show "df (snd (execute_code env code (df s) s)) = df s" by (rule same(1))
  show "fst (execute_code env code (df (snd (execute_code env code (df s) s)))
                (snd (execute_code env code (df s) s)))
          = fst (execute_code env code (df s) s)"
    unfolding same(1) by (rule execute_code_result_depends[OF same(2)])
next
  assume "exec env code exec_globals (local_vars (df s)) (world s) = (ended, dopt', w)"
  then show "df (snd (execute_code env code (df s) s)) = dopt'"
    by (simp add: execute_code_df)
qed

text \<open>
  C7 at the snippet \<^verbatim>\<open>result = 7\<close>, which touches nothing.
\<close>

theorem rerun_on_untouched_dataset_witness:
  "fst (execute_code (sample_env Hangs Hangs) ''result = 7''
          (df (snd (execute_code (sample_env Hangs Hangs) ''result = 7'' (df sample_session) sample_session)))
          (snd (execute_code (sample_env Hangs Hangs) ''result = 7'' (df sample_session) sample_session)))
     = Returns (PyInt 7)
   \<and> df (snd (execute_code (sample_env Hangs Hangs) ''result = 7'' (df sample_session) sample_session))
     = Some sample_df"
proof -
  let ?R = "execute_code (sample_env Hangs Hangs) ''result = 7'' (df sample_session) sample_session"
  have run: "exec (sample_env Hangs Hangs) ''result = 7'' exec_globals
                (local_vars (df sample_session)) (world sample_session)
              = (Returns ((local_vars (Some sample_df))(''result'' \<mapsto> PyInt 7)),
                 df sample_session, world sample_session)"
    by (simp add: sample_env_def sample_exec_def bound_df_def local_vars_def sample_session_def)
  have first: "fst ?R = Returns (PyInt 7)"
    by code_simp
  have stored: "df sample_session = Some sample_df"
    by (simp add: sample_session_def)
  have "df (snd ?R) = df sample_session
      \<and> fst (execute_code (sample_env Hangs Hangs) ''result = 7'' (df (snd ?R)) (snd ?R)) = fst ?R"
    using rerun_on_untouched_dataset[of "sample_env Hangs Hangs" "''result = 7''" sample_session
         "Returns ((local_vars (Some sample_df))(''result'' \<mapsto> PyInt 7))"
         "df sample_session" "world sample_session"] run
    by blast
  with first stored show ?thesis
    by metis
qed

text \<open>
  C7 as stated fails: the snippet receives the stored object itself. A snippet that reads
  the row count and then drops the rows in place gives 2 on the first run and 0 on the
  second.
\<close>

theorem snippet_drops_rows_counterexample:
  "fst (execute_code (sample_env Hangs Hangs)
          ''result = df.shape[0]\<newline>df.drop(df.index, inplace=True)''
          (df sample_session) sample_session)
     = Returns (PyInt 2)
   \<and> fst (execute_code (sample_env Hangs Hangs)
          ''result = df.shape[0]\<newline>df.drop(df.index, inplace=True)''
          (df (snd (execute_code (sample_env Hangs Hangs)
                 ''result = df.shape[0]\<newline>df.drop(df.index, inplace=True)''
                 (df sample_session) sample_session)))
          (snd (execute_code (sample_env Hangs Hangs)
                 ''result = df.shape[0]\<newline>df.drop(df.index, inplace=True)''
                 (df sample_session) sample_session)))
     = Returns (PyInt 0)"
  by code_simp

subsection \<open>C8: oversized uploads\<close>

text \<open>
  Claim C8. A sheet with more than 500 rows or more than 20 columns is rejected with an
  error message that names the bound (the rows first), and the upload step leaves the
  stored dataset as it was. The upload step changes the stored dataset only when the load
  succeeded, and then to a sheet within both bounds.
\<close>

theorem oversized_upload_rejected:
  "(read_excel env f = Returns d \<and> (length (index d) > 500 \<or> length (columns d) > 20) \<longrightarrow>
      process_excel_file env f s =
        (Returns None,
         display (st_error (if length (index d) > 500 then ''Too many rows. Max allowed: 500''
                            else ''Too many columns. Max allowed: 20'')) s)
      \<and> df (snd (main_upload env (inp\<lparr>uploaded_file := Some f\<rparr>) s)) = df s)
   \<and> (df (snd (main_upload env inp s)) \<noteq> df s \<longrightarrow>
        (\<exists>f d. uploaded_file inp = Some f \<and> read_excel env f = Returns d
           \<and> length (index d) \<le> 500 \<and> length (columns d) \<le> 20
           \<and> df (snd (main_upload env inp s)) = Some d))"
proof (intro conjI impI)
  assume big: "read_excel env f = Returns d \<and> (length (index d) > 500 \<or> length (columns d) > 20)"
  then show rejected: "process_excel_file env f s =
        (Returns None,
         display (st_error (if length (index d) > 500 then ''Too many rows. Max allowed: 500''
                            else ''Too many columns. Max allowed: 20'')) s)"
    by (auto simp: process_excel_file_def and_then_simps except_Exception_simps
          str_nat_500 str_nat_20 MAX_ROWS_def MAX_COLS_def)
  show "df (snd (main_upload env (inp\<lparr>uploaded_file := Some f\<rparr>) s)) = df s"
    by (simp add: main_upload_def rejected and_then_simps)
next
  assume "df (snd (main_upload env inp s)) \<noteq> df s"
  then obtain f d where "uploaded_file inp = Some f"
    "fst (process_excel_file env f s) = Returns (Some d)"
    "df (snd (main_upload env inp s)) = Some d"
    using main_upload_df by blast
  then show "\<exists>f d. uploaded_file inp = Some f \<and> read_excel env f = Returns d
           \<and> length (index d) \<le> 500 \<and> length (columns d) \<le> 20
           \<and> df (snd (main_upload env inp s)) = Some d"
    using process_excel_file_loaded[of env f s d] by (auto simp: MAX_ROWS_def MAX_COLS_def)
qed

text \<open>
  C8 at a sheet of 501 rows, which is rejected, and at a small sheet, which is stored.
\<close>

theorem oversized_upload_rejected_witness:
  "process_excel_file
      (sample_env (Returns \<lparr>index = replicate 501 ''0'', columns = []\<rparr>) Hangs)
      \<lparr>file_name = ''big.xlsx'', file_bytes = []\<rparr> sample_session
     = (Returns None, display (st_error ''Too many rows. Max allowed: 500'') sample_session)
   \<and> df (snd (main_upload
        (sample_env (Returns \<lparr>index = replicate 501 ''0'', columns = []\<rparr>) Hangs)
        \<lparr>uploaded_file = Some \<lparr>file_name = ''big.xlsx'', file_bytes = []\<rparr>,
           remove_file = False, reset_file = False, example_button = None,
           send = False, query = []\<rparr>
        (init_state () []))) = None
   \<and> df (snd (main_upload
        (sample_env (Returns sample_df) Hangs)
        \<lparr>uploaded_file = Some \<lparr>file_name = ''small.xlsx'', file_bytes = []\<rparr>,
           remove_file = False, reset_file = False, example_button = None,
           send = False, query = []\<rparr>
        (init_state () []))) = Some sample_df"
proof -
  let ?big = "\<lparr>index = replicate 501 ''0'', columns = []\<rparr>"
  let ?f = "\<lparr>file_name = ''big.xlsx'', file_bytes = []\<rparr>"
  let ?inp = "\<lparr>uploaded_file = Some \<lparr>file_name = ''small.xlsx'', file_bytes = []\<rparr>,
           remove_file = False, reset_file = False, example_button = None,
           send = False, query = []\<rparr>"
  have sheet: "read_excel (sample_env (Returns ?big) Hangs) ?f = Returns ?big"
    by (simp add: sample_env_def)
  have big: "length (index ?big) > 500"
    by simp
  have loaded: "df (snd (main_upload (sample_env (Returns sample_df) Hangs) ?inp (init_state () [])))
      = Some sample_df"
    by code_simp
  have before: "df (init_state () [] :: unit app_state) = None"
    by (simp add: init_state_def)
  from oversized_upload_rejected[of "sample_env (Returns ?big) Hangs" ?f ?big sample_session
         "\<lparr>uploaded_file = None, remove_file = False, reset_file = False, example_button = None,
           send = False, query = []\<rparr>"]
       oversized_upload_rejected[of "sample_env (Returns ?big) Hangs" ?f ?big "init_state () []"
         "\<lparr>uploaded_file = None, remove_file = False, reset_file = False, example_button = None,
           send = False, query = []\<rparr>"]
       oversized_upload_rejected[of "sample_env (Returns sample_df) Hangs" ?f ?big "init_state () []" ?inp]
    sheet big loaded before
  show ?thesis by simp
qed

subsection \<open>C9: the spelling of the assignment\<close>



subsection \<open>C10: two turns per query\<close>




end
